theory Spec2Isabelle
  imports Main
begin

section \<open>The local key management service (package localkms)\<close>

text \<open>
  A shallow embedding of \<^verbatim>\<open>pkg/kms/localkms/localkms.go\<close>. Go's \<^verbatim>\<open>[]byte\<close> and \<^verbatim>\<open>string\<close>
  are both sequences of bytes, and so is a HOL \<^typ>\<open>string\<close>. A Go function returning
  \<^verbatim>\<open>(string, interface{}, error)\<close> returns either \<^verbatim>\<open>("", nil, err)\<close> or
  \<^verbatim>\<open>(id, handle, nil)\<close> on every path of the file: the model returns \<open>Inl err\<close> for the
  first shape and \<open>Inr (id, handle)\<close> for the second.
\<close>

type_synonym bytes = string

subsection \<open>Errors\<close>

datatype error =
    ErrMissingKeyType           \<comment> \<open>"failed to create new key, missing key type"\<close>
  | ErrKeyTypeUnrecognized      \<comment> \<open>"key type unrecognized"\<close>
  | ErrImportUnsupported        \<comment> \<open>"import private key does not support this key type or key is public"\<close>
  | ErrDataNotFound             \<comment> \<open>the store's "not found"\<close>
  | ErrIDAlreadyExists          \<comment> \<open>the repository's "ID already exists"\<close>
  | ErrRandom                   \<comment> \<open>the random source could not be read\<close>
  | ErrNonPrivateKey            \<comment> \<open>the keyset holds a key with no public component\<close>
  | ErrSecretKeyMaterial        \<comment> \<open>writing secret key material in the clear is refused\<close>
  | ErrKeyNotWritten            \<comment> \<open>the public key writer found no key to write\<close>
  | Failure string              \<comment> \<open>any other error of a collaborator, with its message\<close>

subsection \<open>Key types\<close>

text \<open>
  \<^verbatim>\<open>kms.KeyType\<close> is a Go string type, so a caller can pass any string, the empty one
  included.
\<close>

type_synonym KeyType = string

text \<open>
  Modelled from the spec: the key type constants of package \<^verbatim>\<open>kms\<close>, which
  \<^verbatim>\<open>getKeyTemplate\<close> switches on and whose declarations are not in the file. Each
  constant is the string it is named after; the \<^verbatim>\<open>switch\<close> only needs them distinct (Go
  rejects duplicate constant cases) and the empty check only needs them non-empty.
\<close>

definition AES128GCMType :: KeyType where "AES128GCMType = ''AES128GCM''"
definition AES256GCMNoPrefixType :: KeyType where "AES256GCMNoPrefixType = ''AES256GCMNoPrefix''"
definition AES256GCMType :: KeyType where "AES256GCMType = ''AES256GCM''"
definition ChaCha20Poly1305Type :: KeyType where "ChaCha20Poly1305Type = ''ChaCha20Poly1305''"
definition XChaCha20Poly1305Type :: KeyType where "XChaCha20Poly1305Type = ''XChaCha20Poly1305''"
definition ECDSAP256TypeDER :: KeyType where "ECDSAP256TypeDER = ''ECDSAP256DER''"
definition ECDSAP384TypeDER :: KeyType where "ECDSAP384TypeDER = ''ECDSAP384DER''"
definition ECDSAP521TypeDER :: KeyType where "ECDSAP521TypeDER = ''ECDSAP521DER''"
definition ECDSAP256TypeIEEEP1363 :: KeyType where "ECDSAP256TypeIEEEP1363 = ''ECDSAP256IEEEP1363''"
definition ECDSAP384TypeIEEEP1363 :: KeyType where "ECDSAP384TypeIEEEP1363 = ''ECDSAP384IEEEP1363''"
definition ECDSAP521TypeIEEEP1363 :: KeyType where "ECDSAP521TypeIEEEP1363 = ''ECDSAP521IEEEP1363''"
definition ED25519Type :: KeyType where "ED25519Type = ''ED25519''"
definition HMACSHA256Tag256Type :: KeyType where "HMACSHA256Tag256Type = ''HMACSHA256Tag256''"
definition ECDHES256AES256GCMType :: KeyType where "ECDHES256AES256GCMType = ''ECDHES256AES256GCM''"
definition ECDHES384AES256GCMType :: KeyType where "ECDHES384AES256GCMType = ''ECDHES384AES256GCM''"
definition ECDHES521AES256GCMType :: KeyType where "ECDHES521AES256GCMType = ''ECDHES521AES256GCM''"
definition ECDH1PU256AES256GCMType :: KeyType where "ECDH1PU256AES256GCMType = ''ECDH1PU256AES256GCM''"
definition ECDH1PU384AES256GCMType :: KeyType where "ECDH1PU384AES256GCMType = ''ECDH1PU384AES256GCM''"
definition ECDH1PU521AES256GCMType :: KeyType where "ECDH1PU521AES256GCMType = ''ECDH1PU521AES256GCM''"

text \<open>The cases of the \<^verbatim>\<open>switch\<close> in \<^verbatim>\<open>getKeyTemplate\<close>, in its order.\<close>

definition recognizedKeyTypes :: "KeyType list" where
  "recognizedKeyTypes =
     [AES128GCMType, AES256GCMNoPrefixType, AES256GCMType, ChaCha20Poly1305Type,
      XChaCha20Poly1305Type, ECDSAP256TypeDER, ECDSAP384TypeDER, ECDSAP521TypeDER,
      ECDSAP256TypeIEEEP1363, ECDSAP384TypeIEEEP1363, ECDSAP521TypeIEEEP1363, ED25519Type,
      HMACSHA256Tag256Type, ECDHES256AES256GCMType, ECDHES384AES256GCMType,
      ECDHES521AES256GCMType, ECDH1PU256AES256GCMType, ECDH1PU384AES256GCMType,
      ECDH1PU521AES256GCMType]"

subsection \<open>Key templates\<close>

datatype HashType = UNKNOWN_HASH | SHA1 | SHA384 | SHA256 | SHA512

datatype EllipticCurveType = UNKNOWN_CURVE | NIST_P256 | NIST_P384 | NIST_P521 | CURVE25519

datatype EcdsaSignatureEncoding = UNKNOWN_ENCODING | IEEE_P1363 | DER

datatype OutputPrefixType = UNKNOWN_PREFIX | TINK | LEGACY | RAW | CRUNCHY

record EcdsaParams =
  HashType :: HashType
  Curve :: EllipticCurveType
  Encoding :: EcdsaSignatureEncoding

record EcdsaKeyFormat =
  Params :: EcdsaParams

text \<open>
  A key template is either one the file builds field by field (\<^verbatim>\<open>tinkpb.KeyTemplate\<close>
  with its three fields), or one a constructor of a library package returns, kept under
  the constructor's name. \<open>Value\<close> holds the key format message that the source hands to
  \<^verbatim>\<open>proto.Marshal\<close> (whose error it discards); the serialised bytes are not modelled.
\<close>

datatype KeyTemplate =
    KeyTemplate (TypeUrl: string) (Value: EcdsaKeyFormat) (OutputPrefixType: OutputPrefixType)
  | LibraryTemplate string

definition ecdsaPrivateKeyTypeURL :: string where
  "ecdsaPrivateKeyTypeURL = ''type.googleapis.com/google.crypto.tink.EcdsaPrivateKey''"

definition createECDSAIEEE1363KeyTemplate :: "HashType \<Rightarrow> EllipticCurveType \<Rightarrow> KeyTemplate" where
  "createECDSAIEEE1363KeyTemplate hashType curve =
     (let params = \<lparr>HashType = hashType, Curve = curve, Encoding = IEEE_P1363\<rparr>;
          format = \<lparr>Params = params\<rparr>
      in KeyTemplate ecdsaPrivateKeyTypeURL format RAW)"

text \<open>
  Modelled from the spec: the three ECDSA templates of the signature library that the DER
  key types resolve to (\<^verbatim>\<open>signature.ECDSAP256KeyWithoutPrefixTemplate\<close> and its P-384 and
  P-521 siblings), which are not in the file. The spec gives each curve size an ASN.1/DER
  output encoding beside the IEEE-P1363 one; the names say the output carries no prefix;
  the hash is the one the library pairs with the curve.
\<close>

definition signature_ECDSAP256KeyWithoutPrefixTemplate :: KeyTemplate where
  "signature_ECDSAP256KeyWithoutPrefixTemplate =
     KeyTemplate ecdsaPrivateKeyTypeURL
       \<lparr>Params = \<lparr>HashType = SHA256, Curve = NIST_P256, Encoding = DER\<rparr>\<rparr> RAW"

definition signature_ECDSAP384KeyWithoutPrefixTemplate :: KeyTemplate where
  "signature_ECDSAP384KeyWithoutPrefixTemplate =
     KeyTemplate ecdsaPrivateKeyTypeURL
       \<lparr>Params = \<lparr>HashType = SHA512, Curve = NIST_P384, Encoding = DER\<rparr>\<rparr> RAW"

definition signature_ECDSAP521KeyWithoutPrefixTemplate :: KeyTemplate where
  "signature_ECDSAP521KeyWithoutPrefixTemplate =
     KeyTemplate ecdsaPrivateKeyTypeURL
       \<lparr>Params = \<lparr>HashType = SHA512, Curve = NIST_P521, Encoding = DER\<rparr>\<rparr> RAW"

definition getKeyTemplate :: "KeyType \<Rightarrow> error + KeyTemplate" where
  "getKeyTemplate keyType =
     (if keyType = AES128GCMType then Inr (LibraryTemplate ''aead.AES128GCMKeyTemplate'')
      else if keyType = AES256GCMNoPrefixType then
        Inr (LibraryTemplate ''aead.AES256GCMNoPrefixKeyTemplate'')
      else if keyType = AES256GCMType then Inr (LibraryTemplate ''aead.AES256GCMKeyTemplate'')
      else if keyType = ChaCha20Poly1305Type then
        Inr (LibraryTemplate ''aead.ChaCha20Poly1305KeyTemplate'')
      else if keyType = XChaCha20Poly1305Type then
        Inr (LibraryTemplate ''aead.XChaCha20Poly1305KeyTemplate'')
      else if keyType = ECDSAP256TypeDER then Inr signature_ECDSAP256KeyWithoutPrefixTemplate
      else if keyType = ECDSAP384TypeDER then Inr signature_ECDSAP384KeyWithoutPrefixTemplate
      else if keyType = ECDSAP521TypeDER then Inr signature_ECDSAP521KeyWithoutPrefixTemplate
      else if keyType = ECDSAP256TypeIEEEP1363 then
        Inr (createECDSAIEEE1363KeyTemplate SHA256 NIST_P256)
      else if keyType = ECDSAP384TypeIEEEP1363 then
        Inr (createECDSAIEEE1363KeyTemplate SHA384 NIST_P384)
      else if keyType = ECDSAP521TypeIEEEP1363 then
        Inr (createECDSAIEEE1363KeyTemplate SHA512 NIST_P521)
      else if keyType = ED25519Type then
        Inr (LibraryTemplate ''signature.ED25519KeyWithoutPrefixTemplate'')
      else if keyType = HMACSHA256Tag256Type then
        Inr (LibraryTemplate ''mac.HMACSHA256Tag256KeyTemplate'')
      else if keyType = ECDHES256AES256GCMType then
        Inr (LibraryTemplate ''ecdhes.ECDHES256KWAES256GCMKeyTemplate'')
      else if keyType = ECDHES384AES256GCMType then
        Inr (LibraryTemplate ''ecdhes.ECDHES384KWAES256GCMKeyTemplate'')
      else if keyType = ECDHES521AES256GCMType then
        Inr (LibraryTemplate ''ecdhes.ECDHES521KWAES256GCMKeyTemplate'')
      else if keyType = ECDH1PU256AES256GCMType then
        Inr (LibraryTemplate ''ecdh1pu.ECDH1PU256KWAES256GCMKeyTemplate'')
      else if keyType = ECDH1PU384AES256GCMType then
        Inr (LibraryTemplate ''ecdh1pu.ECDH1PU384KWAES256GCMKeyTemplate'')
      else if keyType = ECDH1PU521AES256GCMType then
        Inr (LibraryTemplate ''ecdh1pu.ECDH1PU521KWAES256GCMKeyTemplate'')
      else Inl ErrKeyTypeUnrecognized)"

subsection \<open>Keysets\<close>

text \<open>
  Modelled from the spec: the keyset of the key library (\<^verbatim>\<open>keyset.Handle\<close> wraps one),
  whose declaration is not in the file. A key entry carries its material and its
  metadata; the material of a symmetric key is secret bytes only, that of a private
  asymmetric key is the secret part and the public component, that of a public key is
  public bytes only. A keyset is an ordered sequence of entries and the id of the primary
  one.
\<close>

datatype KeyMaterial =
    Symmetric bytes
  | AsymmetricPrivate bytes bytes
  | AsymmetricPublic bytes

datatype KeyStatusType = ENABLED | DISABLED

record KeyEntry =
  KeyData :: KeyMaterial
  Status :: KeyStatusType
  KeyId :: nat
  KeyTypeUrl :: string

record Keyset =
  PrimaryKeyId :: nat
  Key :: "KeyEntry list"

type_synonym Handle = Keyset

primrec publicKeyData :: "KeyMaterial \<Rightarrow> error + KeyMaterial" where
  "publicKeyData (Symmetric k) = Inl ErrNonPrivateKey"
| "publicKeyData (AsymmetricPrivate d pub) = Inr (AsymmetricPublic pub)"
| "publicKeyData (AsymmetricPublic pub) = Inl ErrNonPrivateKey"

text \<open>
  Modelled from the spec: \<^verbatim>\<open>Handle.Public\<close> of the key library, not in the file. It derives
  the public component of every entry, in order, keeping the metadata, and fails at the
  first entry that is not a private asymmetric key (so it fails when the primary key is
  symmetric).
\<close>

fun publicKeys :: "KeyEntry list \<Rightarrow> error + KeyEntry list" where
  "publicKeys [] = Inr []"
| "publicKeys (k # ks) =
     (case publicKeyData (KeyData k) of
        Inl e \<Rightarrow> Inl e
      | Inr pubKeyData \<Rightarrow>
          (case publicKeys ks of
             Inl e \<Rightarrow> Inl e
           | Inr pubKeys \<Rightarrow> Inr (k\<lparr>KeyData := pubKeyData\<rparr> # pubKeys)))"

definition Handle_Public :: "Handle \<Rightarrow> error + Handle" where
  "Handle_Public h =
     (case publicKeys (Key h) of
        Inl e \<Rightarrow> Inl e
      | Inr pubKeys \<Rightarrow> Inr \<lparr>PrimaryKeyId = PrimaryKeyId h, Key = pubKeys\<rparr>)"

primrec hasSecrets :: "KeyMaterial \<Rightarrow> bool" where
  "hasSecrets (Symmetric k) = True"
| "hasSecrets (AsymmetricPrivate d pub) = True"
| "hasSecrets (AsymmetricPublic pub) = False"

text \<open>
  Modelled from the spec: the public key writer \<^verbatim>\<open>NewWriter(buf)\<close> of this package, not in
  the file. It writes the public bytes of the enabled primary entry, and nothing else; it
  fails when there is no such entry.
\<close>

fun writePrimaryPubKey :: "nat \<Rightarrow> KeyEntry list \<Rightarrow> error + bytes" where
  "writePrimaryPubKey primaryKID [] = Inl ErrKeyNotWritten"
| "writePrimaryPubKey primaryKID (k # ks) =
     (if KeyId k = primaryKID \<and> Status k = ENABLED then
        (case KeyData k of
           AsymmetricPublic pub \<Rightarrow> Inr pub
         | _ \<Rightarrow> Inl ErrKeyNotWritten)
      else writePrimaryPubKey primaryKID ks)"

definition pubKeyWriter_Write :: "Keyset \<Rightarrow> error + bytes" where
  "pubKeyWriter_Write ks = writePrimaryPubKey (PrimaryKeyId ks) (Key ks)"

text \<open>
  Modelled from the spec: \<^verbatim>\<open>Handle.WriteWithNoSecrets\<close> of the key library, not in the
  file. It refuses a keyset that holds secret key material and hands any other keyset to
  the writer it is given.
\<close>

definition Handle_WriteWithNoSecrets :: "Handle \<Rightarrow> (Keyset \<Rightarrow> error + bytes) \<Rightarrow> error + bytes" where
  "Handle_WriteWithNoSecrets h w =
     (if list_ex (\<lambda>k. hasSecrets (KeyData k)) (Key h) then Inl ErrSecretKeyMaterial
      else w h)"

subsection \<open>The store\<close>

text \<open>
  Modelled from the spec: the key-value store behind \<^verbatim>\<open>LocalKMS.store\<close>
  (\<^verbatim>\<open>storage.Store\<close>), an interface whose engine is outside the file. \<open>Get\<close> returns the
  value or "not found"; \<open>Put\<close> and \<open>Delete\<close> return an error or nothing. The records are
  a map. Every call is appended to a log, so that the order of the calls an operation
  makes can be stated. Whether a \<open>Put\<close> or a \<open>Delete\<close> fails is up to the engine:
  \<open>failure\<close> decides it from the calls so far and the call at hand, and a failed call
  leaves the records as they were.
\<close>

datatype StoreOp = OpGet string | OpPut string bytes | OpDelete string

record Store =
  recs :: "string \<rightharpoonup> bytes"
  log :: "StoreOp list"
  failure :: "StoreOp list \<Rightarrow> StoreOp \<Rightarrow> error option"

definition Store_Get :: "Store \<Rightarrow> string \<Rightarrow> (error + bytes) \<times> Store" where
  "Store_Get s k =
     ((case recs s k of None \<Rightarrow> Inl ErrDataNotFound | Some v \<Rightarrow> Inr v),
      s\<lparr>log := log s @ [OpGet k]\<rparr>)"

definition Store_Put :: "Store \<Rightarrow> string \<Rightarrow> bytes \<Rightarrow> error option \<times> Store" where
  "Store_Put s k v =
     (case failure s (log s) (OpPut k v) of
        Some e \<Rightarrow> (Some e, s\<lparr>log := log s @ [OpPut k v]\<rparr>)
      | None \<Rightarrow> (None, s\<lparr>recs := (recs s)(k \<mapsto> v), log := log s @ [OpPut k v]\<rparr>))"

definition Store_Delete :: "Store \<Rightarrow> string \<Rightarrow> error option \<times> Store" where
  "Store_Delete s k =
     (case failure s (log s) (OpDelete k) of
        Some e \<Rightarrow> (Some e, s\<lparr>log := log s @ [OpDelete k]\<rparr>)
      | None \<Rightarrow> (None, s\<lparr>recs := (recs s)(k := None), log := log s @ [OpDelete k]\<rparr>))"

subsection \<open>The store-backed keyset writer\<close>

text \<open>
  The options of \<^verbatim>\<open>ImportPrivateKey\<close> (\<^verbatim>\<open>kms.PrivateKeyOpts\<close>); the one option there is
  asks for a key id. The random source of the process is a list of draws still to come;
  an empty list is a source that cannot be read.
\<close>

datatype PrivateKeyOpts = WithKeyID string

type_synonym rand = "string list"

record storeWriter =
  storage :: Store
  requestedKeysetID :: "string option"
  KeysetID :: string

text \<open>
  Modelled from the spec: \<^verbatim>\<open>newWriter\<close> and the writer's \<^verbatim>\<open>Write\<close> of this package, not in
  the file (spec 4.5, \<open>put(optionalID, bytes)\<close>). The last \<^verbatim>\<open>WithKeyID\<close> option is the
  requested id. With a requested id the writer fails with "ID already exists" when the
  store holds a record under it, and puts the bytes under it otherwise; with none it
  draws a new id from the random source and puts the bytes under that.
\<close>

fun requestedID :: "PrivateKeyOpts list \<Rightarrow> string option" where
  "requestedID [] = None"
| "requestedID (WithKeyID ksID # opts) =
     (case requestedID opts of None \<Rightarrow> Some ksID | Some later \<Rightarrow> Some later)"

definition newWriter :: "Store \<Rightarrow> PrivateKeyOpts list \<Rightarrow> storeWriter" where
  "newWriter kmsStore opts =
     \<lparr>storage = kmsStore, requestedKeysetID = requestedID opts, KeysetID = ''''\<rparr>"

definition storeWriter_put ::
  "storeWriter \<Rightarrow> Store \<Rightarrow> string \<Rightarrow> bytes \<Rightarrow> (error + nat) \<times> storeWriter" where
  "storeWriter_put w s ksID p =
     (case Store_Put s ksID p of
        (Some e, s') \<Rightarrow> (Inl e, w\<lparr>storage := s'\<rparr>)
      | (None, s') \<Rightarrow> (Inr (length p), w\<lparr>storage := s', KeysetID := ksID\<rparr>))"

definition storeWriter_Write ::
  "storeWriter \<Rightarrow> bytes \<Rightarrow> rand \<Rightarrow> (error + nat) \<times> storeWriter \<times> rand" where
  "storeWriter_Write w p rnd =
     (case requestedKeysetID w of
        Some ksID \<Rightarrow>
          (case Store_Get (storage w) ksID of
             (Inr found, s') \<Rightarrow> (Inl ErrIDAlreadyExists, w\<lparr>storage := s'\<rparr>, rnd)
           | (Inl notFound, s') \<Rightarrow>
               (case storeWriter_put w s' ksID p of (r, w') \<Rightarrow> (r, w', rnd)))
      | None \<Rightarrow>
          (case rnd of
             [] \<Rightarrow> (Inl ErrRandom, w, rnd)
           | ksID # rnd' \<Rightarrow>
               (case storeWriter_put w (storage w) ksID p of (r, w') \<Rightarrow> (r, w', rnd'))))"

text \<open>
  \<^verbatim>\<open>writeToStore\<close>, from the file. The store is a reference in Go and the writer mutates
  it; the model returns the store (and the random source) as the writer left them.
\<close>

definition writeToStore ::
  "Store \<Rightarrow> bytes \<Rightarrow> PrivateKeyOpts list \<Rightarrow> rand \<Rightarrow> (error + string) \<times> Store \<times> rand" where
  "writeToStore store' buf opts rnd =
     (let w = newWriter store' opts in
      case storeWriter_Write w buf rnd of
        (Inl err, w', rnd') \<Rightarrow> (Inl err, storage w', rnd')
      | (Inr n, w', rnd') \<Rightarrow> (Inr (KeysetID w'), storage w', rnd'))"

subsection \<open>The collaborators\<close>

text \<open>
  \<^verbatim>\<open>masterKeyEnvAEAD\<close>: the envelope AEAD that wraps and unwraps keysets under the master
  key. It is an object of the key library built over the secret lock; the model takes its
  two operations (plaintext or ciphertext, then associated data) as they are, with
  whatever failures they have.
\<close>

record AEAD =
  Encrypt :: "bytes \<Rightarrow> bytes \<Rightarrow> error + bytes"
  Decrypt :: "bytes \<Rightarrow> bytes \<Rightarrow> error + bytes"

datatype ecdsa_PublicKey = EcdsaPublicKey EllipticCurveType int int

datatype ecdsa_PrivateKey = EcdsaPrivateKey ecdsa_PublicKey int

text \<open>
  The functions of the key library and of this package that the file calls and that are
  not in it, taken as they come: the theorems hold for every behaviour of theirs. Those
  that generate key material draw from the random source and return what is left of it.
  \<open>Manager_Rotate\<close> stands for \<^verbatim>\<open>km.Rotate\<close> on the manager of a keyset and returns the
  manager's keyset after it; \<open>ecdsaPrivateKeyToKeyset\<close> and \<open>ed25519PrivateKeyToKeyset\<close>
  validate a private key against the claimed key type and build the one-entry keyset of
  an import.
\<close>

record Library =
  keyset_NewHandle :: "KeyTemplate \<Rightarrow> rand \<Rightarrow> (error + Handle) \<times> rand"
  Manager_Rotate :: "Keyset \<Rightarrow> KeyTemplate \<Rightarrow> rand \<Rightarrow> (error + Keyset) \<times> rand"
  Manager_Handle :: "Keyset \<Rightarrow> error + Handle"
  proto_Marshal :: "Keyset \<Rightarrow> error + bytes"
  proto_Unmarshal :: "bytes \<Rightarrow> error + Keyset"
  JSONWriter_WriteEncrypted :: "bytes \<Rightarrow> error + bytes"
  JSONReader_ReadEncrypted :: "bytes \<Rightarrow> error + bytes"
  publicKeyBytesToHandle :: "bytes \<Rightarrow> KeyType \<Rightarrow> error + Handle"
  ecdsaPrivateKeyToKeyset :: "ecdsa_PrivateKey \<Rightarrow> KeyType \<Rightarrow> error + Keyset"
  ed25519PrivateKeyToKeyset :: "bytes \<Rightarrow> KeyType \<Rightarrow> error + Keyset"

text \<open>
  Modelled from the spec: \<^verbatim>\<open>Handle.Write\<close> and \<^verbatim>\<open>keyset.Read\<close> of the key library with the
  JSON writer and reader, not in the file. Writing is marshal, then seal under the master
  key, then frame; reading undoes the three steps in reverse and fails at the first that
  fails.
\<close>

definition Handle_Write :: "Library \<Rightarrow> Handle \<Rightarrow> AEAD \<Rightarrow> error + bytes" where
  "Handle_Write lib h masterKey =
     (case proto_Marshal lib h of
        Inl err \<Rightarrow> Inl err
      | Inr serialized \<Rightarrow>
          (case Encrypt masterKey serialized [] of
             Inl err \<Rightarrow> Inl err
           | Inr encrypted \<Rightarrow> JSONWriter_WriteEncrypted lib encrypted))"

definition keyset_Read :: "Library \<Rightarrow> bytes \<Rightarrow> AEAD \<Rightarrow> error + Handle" where
  "keyset_Read lib data masterKey =
     (case JSONReader_ReadEncrypted lib data of
        Inl err \<Rightarrow> Inl err
      | Inr encrypted \<Rightarrow>
          (case Decrypt masterKey encrypted [] of
             Inl err \<Rightarrow> Inl err
           | Inr serialized \<Rightarrow> proto_Unmarshal lib serialized))"

subsection \<open>LocalKMS\<close>

text \<open>
  The struct \<^verbatim>\<open>LocalKMS\<close>. The methods of the file read \<^verbatim>\<open>store\<close> and
  \<^verbatim>\<open>masterKeyEnvAEAD\<close> only; the secret lock is reached through the AEAD. The struct has no
  field that could hold a keyset between calls. \<open>random\<close> is the random source of the
  process, which the methods draw from for new ids and new keys. Every method returns the
  state it leaves, the store with it, on the error paths too.
\<close>

record LocalKMS =
  masterKeyURI :: string
  store :: Store
  masterKeyEnvAEAD :: AEAD
  random :: rand

definition storeKeySet :: "Library \<Rightarrow> LocalKMS \<Rightarrow> Handle \<Rightarrow> (error + string) \<times> LocalKMS" where
  "storeKeySet lib l kh =
     (case Handle_Write lib kh (masterKeyEnvAEAD l) of
        Inl err \<Rightarrow> (Inl err, l)
      | Inr buf \<Rightarrow>
          (case writeToStore (store l) buf [] (random l) of
             (r, s', rnd') \<Rightarrow> (r, l\<lparr>store := s', random := rnd'\<rparr>)))"

text \<open>
  \<^verbatim>\<open>getKeySet\<close>. Modelled from the spec: the store reader \<^verbatim>\<open>newReader(store, id)\<close> of this
  package, not in the file, which reads the record under the id from the store.
\<close>

definition getKeySet :: "Library \<Rightarrow> LocalKMS \<Rightarrow> string \<Rightarrow> (error + Handle) \<times> LocalKMS" where
  "getKeySet lib l id' =
     (case Store_Get (store l) id' of
        (Inl err, s') \<Rightarrow> (Inl err, l\<lparr>store := s'\<rparr>)
      | (Inr data, s') \<Rightarrow>
          (case keyset_Read lib data (masterKeyEnvAEAD l) of
             Inl err \<Rightarrow> (Inl err, l\<lparr>store := s'\<rparr>)
           | Inr kh \<Rightarrow> (Inr kh, l\<lparr>store := s'\<rparr>)))"

definition Create ::
  "Library \<Rightarrow> LocalKMS \<Rightarrow> KeyType \<Rightarrow> (error + string \<times> Handle) \<times> LocalKMS" where
  "Create lib l kt =
     (if kt = '''' then (Inl ErrMissingKeyType, l)
      else
        (case getKeyTemplate kt of
           Inl err \<Rightarrow> (Inl err, l)
         | Inr keyTemplate \<Rightarrow>
             (case keyset_NewHandle lib keyTemplate (random l) of
                (Inl err, rnd') \<Rightarrow> (Inl err, l\<lparr>random := rnd'\<rparr>)
              | (Inr kh, rnd') \<Rightarrow>
                  (case storeKeySet lib (l\<lparr>random := rnd'\<rparr>) kh of
                     (Inl err, l') \<Rightarrow> (Inl err, l')
                   | (Inr kID, l') \<Rightarrow> (Inr (kID, kh), l')))))"

definition Get :: "Library \<Rightarrow> LocalKMS \<Rightarrow> string \<Rightarrow> (error + Handle) \<times> LocalKMS" where
  "Get lib l keyID = getKeySet lib l keyID"

definition Rotate ::
  "Library \<Rightarrow> LocalKMS \<Rightarrow> KeyType \<Rightarrow> string \<Rightarrow> (error + string \<times> Handle) \<times> LocalKMS" where
  "Rotate lib l kt keyID =
     (case getKeySet lib l keyID of
        (Inl err, l1) \<Rightarrow> (Inl err, l1)
      | (Inr kh, l1) \<Rightarrow>
          (case getKeyTemplate kt of
             Inl err \<Rightarrow> (Inl err, l1)
           | Inr keyTemplate \<Rightarrow>
               (case Manager_Rotate lib kh keyTemplate (random l1) of
                  (Inl err, rnd') \<Rightarrow> (Inl err, l1\<lparr>random := rnd'\<rparr>)
                | (Inr km, rnd') \<Rightarrow>
                    (case Manager_Handle lib km of
                       Inl err \<Rightarrow> (Inl err, l1\<lparr>random := rnd'\<rparr>)
                     | Inr updatedKH \<Rightarrow>
                         (case Store_Delete (store l1) keyID of
                            (Some err, s') \<Rightarrow> (Inl err, l1\<lparr>store := s', random := rnd'\<rparr>)
                          | (None, s') \<Rightarrow>
                              (case storeKeySet lib (l1\<lparr>store := s', random := rnd'\<rparr>) updatedKH of
                                 (Inl err, l2) \<Rightarrow> (Inl err, l2)
                               | (Inr newID, l2) \<Rightarrow> (Inr (newID, updatedKH), l2)))))))"

definition ExportPubKeyBytes :: "Library \<Rightarrow> LocalKMS \<Rightarrow> string \<Rightarrow> (error + bytes) \<times> LocalKMS" where
  "ExportPubKeyBytes lib l id' =
     (case getKeySet lib l id' of
        (Inl err, l1) \<Rightarrow> (Inl err, l1)
      | (Inr kh, l1) \<Rightarrow>
          (case Handle_Public kh of
             Inl err \<Rightarrow> (Inl err, l1)
           | Inr pubKH \<Rightarrow>
               (case Handle_WriteWithNoSecrets pubKH pubKeyWriter_Write of
                  Inl err \<Rightarrow> (Inl err, l1)
                | Inr buf \<Rightarrow> (Inr buf, l1))))"

definition PubKeyBytesToHandle ::
  "Library \<Rightarrow> LocalKMS \<Rightarrow> bytes \<Rightarrow> KeyType \<Rightarrow> (error + Handle) \<times> LocalKMS" where
  "PubKeyBytesToHandle lib l pubKey kt = (publicKeyBytesToHandle lib pubKey kt, l)"

subsection \<open>Importing a private key\<close>

text \<open>
  The \<^verbatim>\<open>privKey interface{}\<close> argument of \<^verbatim>\<open>ImportPrivateKey\<close> by its dynamic type: the
  two types the type switch names (a \<^verbatim>\<open>*ecdsa.PrivateKey\<close> may be a nil pointer), and
  values of other types: public keys, a byte slice, the untyped nil, and any further type
  by its name.
\<close>

datatype PrivKeyValue =
    EcdsaPrivateKeyPtr "ecdsa_PrivateKey option"
  | Ed25519PrivateKey bytes
  | EcdsaPublicKeyPtr "ecdsa_PublicKey option"
  | Ed25519PublicKey bytes
  | ByteSlice bytes
  | NilValue
  | OtherType string

text \<open>
  Modelled from the spec: \<^verbatim>\<open>importECDSAKey\<close> and \<^verbatim>\<open>importEd25519Key\<close> of this package, not
  in the file (spec 4.6, Import): validate the key against the claimed key type and build
  a one-entry keyset, then marshal, seal and put it under the optional id, and return the
  id and the handle.
\<close>

definition importKeySet ::
  "Library \<Rightarrow> LocalKMS \<Rightarrow> Keyset \<Rightarrow> PrivateKeyOpts list \<Rightarrow> (error + string \<times> Handle) \<times> LocalKMS" where
  "importKeySet lib l ks opts =
     (case Handle_Write lib ks (masterKeyEnvAEAD l) of
        Inl err \<Rightarrow> (Inl err, l)
      | Inr buf \<Rightarrow>
          (case writeToStore (store l) buf opts (random l) of
             (Inl err, s', rnd') \<Rightarrow> (Inl err, l\<lparr>store := s', random := rnd'\<rparr>)
           | (Inr ksID, s', rnd') \<Rightarrow> (Inr (ksID, ks), l\<lparr>store := s', random := rnd'\<rparr>)))"

definition importECDSAKey ::
  "Library \<Rightarrow> LocalKMS \<Rightarrow> ecdsa_PrivateKey option \<Rightarrow> KeyType \<Rightarrow> PrivateKeyOpts list
     \<Rightarrow> (error + string \<times> Handle) \<times> LocalKMS" where
  "importECDSAKey lib l privKey kt opts =
     (case privKey of
        None \<Rightarrow> (Inl (Failure ''import private key: private key is nil''), l)
      | Some pk \<Rightarrow>
          (case ecdsaPrivateKeyToKeyset lib pk kt of
             Inl err \<Rightarrow> (Inl err, l)
           | Inr ks \<Rightarrow> importKeySet lib l ks opts))"

definition importEd25519Key ::
  "Library \<Rightarrow> LocalKMS \<Rightarrow> bytes \<Rightarrow> KeyType \<Rightarrow> PrivateKeyOpts list
     \<Rightarrow> (error + string \<times> Handle) \<times> LocalKMS" where
  "importEd25519Key lib l privKey kt opts =
     (case ed25519PrivateKeyToKeyset lib privKey kt of
        Inl err \<Rightarrow> (Inl err, l)
      | Inr ks \<Rightarrow> importKeySet lib l ks opts)"

definition ImportPrivateKey ::
  "Library \<Rightarrow> LocalKMS \<Rightarrow> PrivKeyValue \<Rightarrow> KeyType \<Rightarrow> PrivateKeyOpts list
     \<Rightarrow> (error + string \<times> Handle) \<times> LocalKMS" where
  "ImportPrivateKey lib l privKey kt opts =
     (case privKey of
        EcdsaPrivateKeyPtr pk \<Rightarrow> importECDSAKey lib l pk kt opts
      | Ed25519PrivateKey pk \<Rightarrow> importEd25519Key lib l pk kt opts
      | _ \<Rightarrow> (Inl ErrImportUnsupported, l))"

subsection \<open>Vocabulary of the properties\<close>

text \<open>The primary key of a keyset: the first entry that carries the primary key id.\<close>

definition primaryKey :: "Keyset \<Rightarrow> KeyEntry option" where
  "primaryKey ks = find (\<lambda>k. KeyId k = PrimaryKeyId ks) (Key ks)"

text \<open>
  A keyset with every secret byte blanked out: two keysets with the same redaction differ
  in their secret bytes only.
\<close>

primrec redactMaterial :: "KeyMaterial \<Rightarrow> KeyMaterial" where
  "redactMaterial (Symmetric k) = Symmetric []"
| "redactMaterial (AsymmetricPrivate d pub) = AsymmetricPrivate [] pub"
| "redactMaterial (AsymmetricPublic pub) = AsymmetricPublic pub"

definition redact :: "Keyset \<Rightarrow> Keyset" where
  "redact ks = ks\<lparr>Key := map (\<lambda>k. k\<lparr>KeyData := redactMaterial (KeyData k)\<rparr>) (Key ks)\<rparr>"

subsection \<open>A small instance\<close>

text \<open>
  A library, an AEAD and two stores small enough to run by hand. The serialiser writes
  the key material of the entries one after the other; the AEAD seals by prefixing. The
  store holds a private ECDSA keyset under \<open>k1\<close> and a symmetric keyset under \<open>k0\<close>. The
  second store refuses every \<open>Put\<close>.
\<close>

definition toyEntry :: "KeyMaterial \<Rightarrow> nat \<Rightarrow> KeyEntry" where
  "toyEntry m n = \<lparr>KeyData = m, Status = ENABLED, KeyId = n, KeyTypeUrl = ''toy''\<rparr>"

definition ecKeyset :: Keyset where
  "ecKeyset = \<lparr>PrimaryKeyId = 1, Key = [toyEntry (AsymmetricPrivate ''d1'' ''Q1'') 1]\<rparr>"

definition symKeyset :: Keyset where
  "symKeyset = \<lparr>PrimaryKeyId = 1, Key = [toyEntry (Symmetric ''s1'') 1]\<rparr>"

definition rotatedKeyset :: Keyset where
  "rotatedKeyset =
     \<lparr>PrimaryKeyId = 2,
      Key = [toyEntry (AsymmetricPrivate ''d1'' ''Q1'') 1,
             toyEntry (AsymmetricPrivate ''d2'' ''Qd2'') 2]\<rparr>"

primrec toyMaterialBytes :: "KeyMaterial \<Rightarrow> bytes" where
  "toyMaterialBytes (Symmetric k) = ''S:'' @ k @ '';''"
| "toyMaterialBytes (AsymmetricPrivate d pub) = ''P:'' @ d @ '','' @ pub @ '';''"
| "toyMaterialBytes (AsymmetricPublic pub) = ''Q:'' @ pub @ '';''"

definition toyLibrary :: Library where
  "toyLibrary =
     \<lparr>keyset_NewHandle = (\<lambda>t rnd. case rnd of
          [] \<Rightarrow> (Inl ErrRandom, [])
        | k # rnd' \<Rightarrow>
            (Inr \<lparr>PrimaryKeyId = 1, Key = [toyEntry (AsymmetricPrivate k (''Q'' @ k)) 1]\<rparr>,
             rnd')),
      Manager_Rotate = (\<lambda>ks t rnd. case rnd of
          [] \<Rightarrow> (Inl ErrRandom, [])
        | k # rnd' \<Rightarrow>
            (Inr \<lparr>PrimaryKeyId = Suc (length (Key ks)),
                  Key = Key ks @
                    [toyEntry (AsymmetricPrivate k (''Q'' @ k)) (Suc (length (Key ks)))]\<rparr>,
             rnd')),
      Manager_Handle = Inr,
      proto_Marshal = (\<lambda>ks. Inr (concat (map (\<lambda>k. toyMaterialBytes (KeyData k)) (Key ks)))),
      proto_Unmarshal = (\<lambda>b. if b = ''P:d1,Q1;'' then Inr ecKeyset
                              else if b = ''S:s1;'' then Inr symKeyset
                              else Inl (Failure ''corrupt keyset'')),
      JSONWriter_WriteEncrypted = Inr,
      JSONReader_ReadEncrypted = Inr,
      publicKeyBytesToHandle = (\<lambda>pub kt.
          if pub = [] then Inl (Failure ''pubKey is empty'')
          else Inr \<lparr>PrimaryKeyId = 1, Key = [toyEntry (AsymmetricPublic pub) 1]\<rparr>),
      ecdsaPrivateKeyToKeyset = (\<lambda>pk kt. Inl (Failure ''invalid ECDSA key'')),
      ed25519PrivateKeyToKeyset = (\<lambda>pk kt.
          if kt = ED25519Type
          then Inr \<lparr>PrimaryKeyId = 1,
                    Key = [toyEntry (AsymmetricPrivate (take 2 pk) (drop 2 pk)) 1]\<rparr>
          else Inl (Failure ''invalid key type''))\<rparr>"

definition toyAEAD :: AEAD where
  "toyAEAD =
     \<lparr>Encrypt = (\<lambda>p aad. Inr (''sealed:'' @ p)),
      Decrypt = (\<lambda>c aad. if take 7 c = ''sealed:'' then Inr (drop 7 c)
                          else Inl (Failure ''decryption failed''))\<rparr>"

definition toyStore :: Store where
  "toyStore =
     \<lparr>recs = [''k1'' \<mapsto> ''sealed:P:d1,Q1;'', ''k0'' \<mapsto> ''sealed:S:s1;''],
      log = [],
      failure = (\<lambda>calls call. None)\<rparr>"

definition fullStore :: Store where
  "fullStore =
     \<lparr>recs = [''k1'' \<mapsto> ''sealed:P:d1,Q1;'', ''k0'' \<mapsto> ''sealed:S:s1;''],
      log = [],
      failure = (\<lambda>calls call.
         case call of OpPut k v \<Rightarrow> Some (Failure ''disk full'') | _ \<Rightarrow> None)\<rparr>"

definition toyKMS :: LocalKMS where
  "toyKMS =
     \<lparr>masterKeyURI = ''local-lock://test/master/key'', store = toyStore,
      masterKeyEnvAEAD = toyAEAD, random = [''d2'', ''k2'']\<rparr>"

definition fullKMS :: LocalKMS where
  "fullKMS = toyKMS\<lparr>store := fullStore\<rparr>"

definition dryKMS :: LocalKMS where
  "dryKMS = toyKMS\<lparr>random := []\<rparr>"

section \<open>Properties\<close>

subsection \<open>Auxiliary facts\<close>

lemmas KeyType_defs =
  AES128GCMType_def AES256GCMNoPrefixType_def AES256GCMType_def ChaCha20Poly1305Type_def
  XChaCha20Poly1305Type_def ECDSAP256TypeDER_def ECDSAP384TypeDER_def ECDSAP521TypeDER_def
  ECDSAP256TypeIEEEP1363_def ECDSAP384TypeIEEEP1363_def ECDSAP521TypeIEEEP1363_def
  ED25519Type_def HMACSHA256Tag256Type_def ECDHES256AES256GCMType_def
  ECDHES384AES256GCMType_def ECDHES521AES256GCMType_def ECDH1PU256AES256GCMType_def
  ECDH1PU384AES256GCMType_def ECDH1PU521AES256GCMType_def

lemmas toy_defs = toyKMS_def fullKMS_def toyStore_def fullStore_def toyAEAD_def toyLibrary_def
  ecKeyset_def symKeyset_def toyEntry_def

lemmas op_defs = Rotate_def getKeySet_def Store_Get_def Store_Put_def Store_Delete_def
  keyset_Read_def Handle_Write_def storeKeySet_def writeToStore_def newWriter_def
  storeWriter_Write_def storeWriter_put_def

lemma getKeyTemplate_recognized:
  "kt \<in> set recognizedKeyTypes \<Longrightarrow> \<exists>t. getKeyTemplate kt = Inr t"
  unfolding recognizedKeyTypes_def getKeyTemplate_def by auto

lemma getKeyTemplate_unrecognized:
  "kt \<notin> set recognizedKeyTypes \<Longrightarrow> getKeyTemplate kt = Inl ErrKeyTypeUnrecognized"
  unfolding recognizedKeyTypes_def getKeyTemplate_def by simp

lemma empty_unrecognized: "'''' \<notin> set recognizedKeyTypes"
  unfolding recognizedKeyTypes_def KeyType_defs by simp

lemma getKeySet_snd:
  "snd (getKeySet lib l k) = l\<lparr>store := (store l)\<lparr>log := log (store l) @ [OpGet k]\<rparr>\<rparr>"
  by (simp add: getKeySet_def Store_Get_def split: option.splits sum.splits)

lemma getKeySet_fst:
  "fst (getKeySet lib l k) =
     (case recs (store l) k of
        None \<Rightarrow> Inl ErrDataNotFound
      | Some data \<Rightarrow> keyset_Read lib data (masterKeyEnvAEAD l))"
  by (simp add: getKeySet_def Store_Get_def split: option.splits sum.splits)

lemma getKeySet_pair:
  "getKeySet lib l k =
     (fst (getKeySet lib l k), l\<lparr>store := (store l)\<lparr>log := log (store l) @ [OpGet k]\<rparr>\<rparr>)"
  by (metis getKeySet_snd prod.collapse)

lemma Store_Delete_cases:
  "Store_Delete s k =
     (case failure s (log s) (OpDelete k) of
        Some e \<Rightarrow> (Some e, s\<lparr>log := log s @ [OpDelete k]\<rparr>)
      | None \<Rightarrow> (None, s\<lparr>recs := (recs s)(k := None), log := log s @ [OpDelete k]\<rparr>))"
  by (simp add: Store_Delete_def)

lemma writeToStore_generated:
  "writeToStore s buf [] rnd =
     (case rnd of
        [] \<Rightarrow> (Inl ErrRandom, s, [])
      | ksID # rnd' \<Rightarrow>
          (case failure s (log s) (OpPut ksID buf) of
             Some e \<Rightarrow> (Inl e, s\<lparr>log := log s @ [OpPut ksID buf]\<rparr>, rnd')
           | None \<Rightarrow>
               (Inr ksID,
                s\<lparr>recs := (recs s)(ksID \<mapsto> buf), log := log s @ [OpPut ksID buf]\<rparr>,
                rnd')))"
  by (simp add: writeToStore_def newWriter_def storeWriter_Write_def storeWriter_put_def
      Store_Put_def split: list.splits option.splits)

lemma writeToStore_requested:
  "requestedID opts = Some ksID \<Longrightarrow>
   writeToStore s buf opts rnd =
     (case recs s ksID of
        Some found \<Rightarrow> (Inl ErrIDAlreadyExists, s\<lparr>log := log s @ [OpGet ksID]\<rparr>, rnd)
      | None \<Rightarrow>
          (case failure s (log s @ [OpGet ksID]) (OpPut ksID buf) of
             Some e \<Rightarrow> (Inl e, s\<lparr>log := log s @ [OpGet ksID, OpPut ksID buf]\<rparr>, rnd)
           | None \<Rightarrow>
               (Inr ksID,
                s\<lparr>recs := (recs s)(ksID \<mapsto> buf),
                  log := log s @ [OpGet ksID, OpPut ksID buf]\<rparr>,
                rnd)))"
  by (simp add: writeToStore_def newWriter_def storeWriter_Write_def storeWriter_put_def
      Store_Put_def Store_Get_def split: list.splits option.splits)

lemma storeKeySet_Inr:
  assumes "storeKeySet lib l kh = (Inr newID, l')"
  shows "\<exists>buf rnd'. Handle_Write lib kh (masterKeyEnvAEAD l) = Inr buf \<and>
           random l = newID # rnd' \<and>
           failure (store l) (log (store l)) (OpPut newID buf) = None \<and>
           l' = l\<lparr>store := (store l)\<lparr>recs := (recs (store l))(newID \<mapsto> buf),
                                      log := log (store l) @ [OpPut newID buf]\<rparr>,
                  random := rnd'\<rparr>"
  using assms
  by (auto simp: storeKeySet_def writeToStore_generated
      split: sum.splits list.splits option.splits)

lemma storeKeySet_Inl:
  assumes "storeKeySet lib l kh = (Inl err, l')"
  shows "recs (store l') = recs (store l) \<and> failure (store l') = failure (store l) \<and>
         (\<exists>ops. log (store l') = log (store l) @ ops \<and> (\<forall>k. OpDelete k \<notin> set ops))"
  using assms
  by (auto simp: storeKeySet_def writeToStore_generated
      split: sum.splits list.splits option.splits)

lemma toy_getKT:
  "getKeyTemplate ECDSAP256TypeIEEEP1363 = Inr (createECDSAIEEE1363KeyTemplate SHA256 NIST_P256)"
  by (simp add: getKeyTemplate_def KeyType_defs)

lemma toy_unrecognized: "getKeyTemplate ''RSA2048'' = Inl ErrKeyTypeUnrecognized"
  by (simp add: getKeyTemplate_def KeyType_defs)

lemma toy_getKeySet_k0: "fst (getKeySet toyLibrary toyKMS ''k0'') = Inr symKeyset"
  by (simp add: getKeySet_fst keyset_Read_def toy_defs)

lemma toy_getKeySet_k1: "fst (getKeySet toyLibrary toyKMS ''k1'') = Inr ecKeyset"
  by (simp add: getKeySet_fst keyset_Read_def toy_defs)

lemma toy_Rotate_fst:
  "fst (Rotate toyLibrary toyKMS ECDSAP256TypeIEEEP1363 ''k1'') = Inr (''k2'', rotatedKeyset)"
  by (simp add: op_defs toy_defs toy_getKT rotatedKeyset_def)

lemma publicKeyData_redact: "publicKeyData (redactMaterial m) = publicKeyData m"
  by (cases m) simp_all

lemma publicKeys_redact:
  "publicKeys (map (\<lambda>k. k\<lparr>KeyData := redactMaterial (KeyData k)\<rparr>) ks) = publicKeys ks"
  by (induction ks) (simp_all add: publicKeyData_redact split: sum.splits)

lemma Handle_Public_redact: "Handle_Public (redact h) = Handle_Public h"
  by (simp add: Handle_Public_def redact_def publicKeys_redact split: sum.splits)

lemma publicKeys_Inr_private:
  "publicKeys ks = Inr pubKeys \<Longrightarrow> k \<in> set ks \<Longrightarrow> \<exists>d pub. KeyData k = AsymmetricPrivate d pub"
proof (induction ks arbitrary: pubKeys)
  case Nil
  then show ?case by simp
next
  case (Cons a ks)
  then show ?case
    by (cases "KeyData a") (auto split: sum.splits)
qed

lemma writePrimaryPubKey_publicKeys:
  "publicKeys ks = Inr pubKeys \<Longrightarrow> writePrimaryPubKey n pubKeys = Inr buf \<Longrightarrow>
   \<exists>k d. k \<in> set ks \<and> KeyId k = n \<and> Status k = ENABLED \<and> KeyData k = AsymmetricPrivate d buf"
proof (induction ks arbitrary: pubKeys)
  case Nil
  then show ?case by simp
next
  case (Cons a ks)
  show ?case
  proof (cases "KeyData a")
    case (AsymmetricPrivate d pub)
    with Cons.prems obtain rest where rest: "publicKeys ks = Inr rest"
      and pk: "pubKeys = a\<lparr>KeyData := AsymmetricPublic pub\<rparr> # rest"
      by (auto split: sum.splits)
    show ?thesis
    proof (cases "KeyId a = n \<and> Status a = ENABLED")
      case True
      with Cons.prems(2) pk have "buf = pub" by simp
      with True AsymmetricPrivate show ?thesis by auto
    next
      case False
      with Cons.prems(2) pk have "writePrimaryPubKey n rest = Inr buf" by auto
      from Cons.IH [OF rest this] show ?thesis by auto
    qed
  next
    case (Symmetric x)
    with Cons.prems show ?thesis by simp
  next
    case (AsymmetricPublic x)
    with Cons.prems show ?thesis by simp
  qed
qed

lemma ExportPubKeyBytes_fst:
  "fst (ExportPubKeyBytes lib l k) =
     (case fst (getKeySet lib l k) of
        Inl err \<Rightarrow> Inl err
      | Inr kh \<Rightarrow>
          (case Handle_Public kh of
             Inl err \<Rightarrow> Inl err
           | Inr pubKH \<Rightarrow> Handle_WriteWithNoSecrets pubKH pubKeyWriter_Write))"
  by (subst ExportPubKeyBytes_def, subst getKeySet_pair) (simp split: sum.splits)

lemma importKeySet_occupied:
  assumes "requestedID opts = Some ksID" and "recs (store l) ksID = Some v"
  shows "isl (fst (importKeySet lib l ks opts)) \<and>
         recs (store (snd (importKeySet lib l ks opts))) = recs (store l) \<and>
         (\<forall>buf. Handle_Write lib ks (masterKeyEnvAEAD l) = Inr buf \<longrightarrow>
            fst (importKeySet lib l ks opts) = Inl ErrIDAlreadyExists)"
  using assms
  by (cases "Handle_Write lib ks (masterKeyEnvAEAD l)")
     (simp_all add: importKeySet_def writeToStore_requested)

subsection \<open>Rotate: the order of the store calls\<close>

text \<open>
  C1. The specification has Rotate store the updated keyset under a new id first and
  delete the old record after. The code calls \<^verbatim>\<open>store.Delete(keyID)\<close> first and \<^verbatim>\<open>storeKeySet\<close> after.
  What holds: a Rotate that succeeds has read the record under \<open>keyID\<close>, then deleted the
  record under \<open>keyID\<close>, then put the sealed updated keyset under a newly drawn id, in
  this order; it returns that id with the updated handle,
  which is the handle of the manager after rotating the fetched keyset with the template
  of the key type; the store then holds the sealed keyset under the new id and, unless
  the new id is \<open>keyID\<close> itself, nothing under \<open>keyID\<close>.
\<close>

theorem Rotate_deletes_then_puts:
  assumes "Rotate lib l kt keyID = (Inr (newID, updatedKH), l')"
  shows "\<exists>kh keyTemplate km rnd' buf.
          fst (getKeySet lib l keyID) = Inr kh \<and>
          getKeyTemplate kt = Inr keyTemplate \<and>
          Manager_Rotate lib kh keyTemplate (random l) = (Inr km, newID # rnd') \<and>
          Manager_Handle lib km = Inr updatedKH \<and>
          Handle_Write lib updatedKH (masterKeyEnvAEAD l) = Inr buf \<and>
          log (store l') = log (store l) @ [OpGet keyID, OpDelete keyID, OpPut newID buf] \<and>
          recs (store l') = ((recs (store l))(keyID := None))(newID \<mapsto> buf)"
proof -
  let ?l1 = "l\<lparr>store := (store l)\<lparr>log := log (store l) @ [OpGet keyID]\<rparr>\<rparr>"
  have g: "getKeySet lib l keyID = (fst (getKeySet lib l keyID), ?l1)"
    by (rule getKeySet_pair)
  from assms g obtain kh where kh: "fst (getKeySet lib l keyID) = Inr kh"
    by (cases "fst (getKeySet lib l keyID)") (auto simp: Rotate_def)
  from assms g kh obtain keyTemplate where t: "getKeyTemplate kt = Inr keyTemplate"
    by (cases "getKeyTemplate kt") (auto simp: Rotate_def)
  obtain r rnd where m: "Manager_Rotate lib kh keyTemplate (random l) = (r, rnd)"
    by (cases "Manager_Rotate lib kh keyTemplate (random l)")
  from assms g kh t m obtain km where km: "r = Inr km"
    by (cases r) (auto simp: Rotate_def)
  from assms g kh t m km obtain h where h: "Manager_Handle lib km = Inr h"
    by (cases "Manager_Handle lib km") (auto simp: Rotate_def)
  from assms g kh t m km h
  have d: "failure (store l) (log (store l) @ [OpGet keyID]) (OpDelete keyID) = None"
    by (cases "failure (store l) (log (store l) @ [OpGet keyID]) (OpDelete keyID)")
       (auto simp: Rotate_def Store_Delete_cases)
  let ?l2 = "l\<lparr>store := (store l)\<lparr>recs := (recs (store l))(keyID := None),
                                   log := log (store l) @ [OpGet keyID, OpDelete keyID]\<rparr>,
               random := rnd\<rparr>"
  from assms g kh t m km h d
  have s: "storeKeySet lib ?l2 h = (Inr newID, l')" and u: "updatedKH = h"
    by (auto simp: Rotate_def Store_Delete_cases split: prod.splits sum.splits)
  from storeKeySet_Inr [OF s] obtain buf rnd' where
    w: "Handle_Write lib h (masterKeyEnvAEAD ?l2) = Inr buf" and
    rn: "random ?l2 = newID # rnd'" and
    l': "l' = ?l2\<lparr>store := (store ?l2)\<lparr>recs := (recs (store ?l2))(newID \<mapsto> buf),
                                      log := log (store ?l2) @ [OpPut newID buf]\<rparr>,
                  random := rnd'\<rparr>"
    by blast
  from rn have "rnd = newID # rnd'" by simp
  with kh t m km h u w l' show ?thesis by simp
qed

theorem Rotate_deletes_then_puts_witness:
  "fst (Rotate toyLibrary toyKMS ECDSAP256TypeIEEEP1363 ''k1'') = Inr (''k2'', rotatedKeyset) \<and>
   log (store (snd (Rotate toyLibrary toyKMS ECDSAP256TypeIEEEP1363 ''k1''))) =
     log (store toyKMS) @
       [OpGet ''k1'', OpDelete ''k1'', OpPut ''k2'' ''sealed:P:d1,Q1;P:d2,Qd2;''] \<and>
   recs (store (snd (Rotate toyLibrary toyKMS ECDSAP256TypeIEEEP1363 ''k1''))) =
     ((recs (store toyKMS))(''k1'' := None))(''k2'' \<mapsto> ''sealed:P:d1,Q1;P:d2,Qd2;'')"
proof -
  let ?r = "Rotate toyLibrary toyKMS ECDSAP256TypeIEEEP1363 ''k1''"
  have r: "?r = (Inr (''k2'', rotatedKeyset), snd ?r)"
    using toy_Rotate_fst by (metis prod.collapse)
  have w: "Handle_Write toyLibrary rotatedKeyset (masterKeyEnvAEAD toyKMS) =
             Inr ''sealed:P:d1,Q1;P:d2,Qd2;''"
    by (simp add: Handle_Write_def toy_defs rotatedKeyset_def)
  from Rotate_deletes_then_puts [OF r] w toy_Rotate_fst show ?thesis by auto
qed

text \<open>
  The order of the specification fails on the small instance: the record \<open>k1\<close> is there, the key type
  is recognised, Rotate succeeds, and its store calls are the read, the delete of \<open>k1\<close>
  and only then the put under the new id \<open>k2\<close>.
\<close>

theorem Rotate_put_first_counterexample:
  "recs (store toyKMS) ''k1'' = Some ''sealed:P:d1,Q1;'' \<and>
   getKeyTemplate ECDSAP256TypeIEEEP1363 =
     Inr (createECDSAIEEE1363KeyTemplate SHA256 NIST_P256) \<and>
   fst (Rotate toyLibrary toyKMS ECDSAP256TypeIEEEP1363 ''k1'') = Inr (''k2'', rotatedKeyset) \<and>
   log (store (snd (Rotate toyLibrary toyKMS ECDSAP256TypeIEEEP1363 ''k1''))) =
     [OpGet ''k1'', OpDelete ''k1'', OpPut ''k2'' ''sealed:P:d1,Q1;P:d2,Qd2;''] \<and>
   log (store (snd (Rotate toyLibrary toyKMS ECDSAP256TypeIEEEP1363 ''k1''))) \<noteq>
     [OpGet ''k1'', OpPut ''k2'' ''sealed:P:d1,Q1;P:d2,Qd2;'', OpDelete ''k1'']"
  by (simp add: op_defs toy_defs toy_getKT rotatedKeyset_def)

subsection \<open>Rotate: the store after a failure\<close>

text \<open>
  C2. The specification has the store unchanged whenever Rotate returns an error. The
  code has already deleted the old record when the sealing or the put of the rotated keyset fails.
  What holds: when Rotate returns an error no record has been added, and the record under
  \<open>keyID\<close> is gone exactly when Rotate reached its delete call and that call succeeded;
  in every other case the records are as they were.
\<close>

theorem Rotate_error_store:
  assumes "Rotate lib l kt keyID = (Inl err, l')"
  shows "recs (store l') =
           (if OpDelete keyID \<in> set (drop (length (log (store l))) (log (store l'))) \<and>
               failure (store l) (log (store l) @ [OpGet keyID]) (OpDelete keyID) = None
            then (recs (store l))(keyID := None)
            else recs (store l))"
proof -
  let ?l1 = "l\<lparr>store := (store l)\<lparr>log := log (store l) @ [OpGet keyID]\<rparr>\<rparr>"
  have g: "getKeySet lib l keyID = (fst (getKeySet lib l keyID), ?l1)"
    by (rule getKeySet_pair)
  show ?thesis
  proof (cases "fst (getKeySet lib l keyID)")
    case (Inl e)
    with assms g show ?thesis by (auto simp: Rotate_def)
  next
    case (Inr kh)
    note kh = this
    show ?thesis
    proof (cases "getKeyTemplate kt")
      case (Inl e)
      with assms g kh show ?thesis by (auto simp: Rotate_def)
    next
      case (Inr keyTemplate)
      note t = this
      obtain r rnd where m: "Manager_Rotate lib kh keyTemplate (random l) = (r, rnd)"
        by (cases "Manager_Rotate lib kh keyTemplate (random l)")
      show ?thesis
      proof (cases r)
        case (Inl e)
        with assms g kh t m show ?thesis by (auto simp: Rotate_def)
      next
        case (Inr km)
        note km = this
        show ?thesis
        proof (cases "Manager_Handle lib km")
          case (Inl e)
          with assms g kh t m km show ?thesis by (auto simp: Rotate_def)
        next
          case (Inr h)
          note h = this
          show ?thesis
          proof (cases "failure (store l) (log (store l) @ [OpGet keyID]) (OpDelete keyID)")
            case (Some e)
            with assms g kh t m km h show ?thesis
              by (auto simp: Rotate_def Store_Delete_cases)
          next
            case None
            let ?l2 = "l\<lparr>store := (store l)\<lparr>recs := (recs (store l))(keyID := None),
                                   log := log (store l) @ [OpGet keyID, OpDelete keyID]\<rparr>,
               random := rnd\<rparr>"
            from assms g kh t m km h None have s: "storeKeySet lib ?l2 h = (Inl err, l')"
              by (auto simp: Rotate_def Store_Delete_cases split: prod.splits sum.splits)
            from storeKeySet_Inl [OF s] obtain ops where
              "recs (store l') = (recs (store l))(keyID := None)"
              "log (store l') = log (store l) @ [OpGet keyID, OpDelete keyID] @ ops"
              by auto
            with None show ?thesis by simp
          qed
        qed
      qed
    qed
  qed
qed

theorem Rotate_error_store_witness:
  "fst (Rotate toyLibrary fullKMS ECDSAP256TypeIEEEP1363 ''k1'') = Inl (Failure ''disk full'') \<and>
   recs (store (snd (Rotate toyLibrary fullKMS ECDSAP256TypeIEEEP1363 ''k1''))) =
     (recs (store fullKMS))(''k1'' := None) \<and>
   fst (Rotate toyLibrary toyKMS ''RSA2048'' ''k1'') = Inl ErrKeyTypeUnrecognized \<and>
   recs (store (snd (Rotate toyLibrary toyKMS ''RSA2048'' ''k1''))) = recs (store toyKMS)"
proof -
  let ?r = "Rotate toyLibrary fullKMS ECDSAP256TypeIEEEP1363 ''k1''"
  let ?q = "Rotate toyLibrary toyKMS ''RSA2048'' ''k1''"
  have rf: "fst ?r = Inl (Failure ''disk full'')"
    by (simp add: op_defs toy_defs toy_getKT)
  have rl: "log (store (snd ?r)) =
      [OpGet ''k1'', OpDelete ''k1'', OpPut ''k2'' ''sealed:P:d1,Q1;P:d2,Qd2;'']"
    by (simp add: op_defs toy_defs toy_getKT)
  have qf: "fst ?q = Inl ErrKeyTypeUnrecognized"
    by (simp add: op_defs toy_defs toy_unrecognized)
  have ql: "log (store (snd ?q)) = [OpGet ''k1'']"
    by (simp add: op_defs toy_defs toy_unrecognized)
  have r: "?r = (Inl (Failure ''disk full''), snd ?r)"
    using rf by (metis prod.collapse)
  have q: "?q = (Inl ErrKeyTypeUnrecognized, snd ?q)"
    using qf by (metis prod.collapse)
  have l0: "log (store fullKMS) = []" "log (store toyKMS) = []"
    "failure (store fullKMS) [OpGet ''k1''] (OpDelete ''k1'') = None"
    by (simp_all add: toy_defs)
  from Rotate_error_store [OF r] rl l0
  have "recs (store (snd ?r)) = (recs (store fullKMS))(''k1'' := None)" by simp
  moreover from Rotate_error_store [OF q] ql l0
  have "recs (store (snd ?q)) = recs (store toyKMS)" by simp
  ultimately show ?thesis using rf qf by simp
qed

text \<open>
  The store is not unchanged on the instance that refuses every \<open>Put\<close>: the record \<open>k1\<close> is there
  before, Rotate returns the error of the put, and the record \<open>k1\<close> is gone after.
\<close>

theorem Rotate_error_unchanged_counterexample:
  "recs (store fullKMS) ''k1'' = Some ''sealed:P:d1,Q1;'' \<and>
   fst (Rotate toyLibrary fullKMS ECDSAP256TypeIEEEP1363 ''k1'') = Inl (Failure ''disk full'') \<and>
   recs (store (snd (Rotate toyLibrary fullKMS ECDSAP256TypeIEEEP1363 ''k1''))) ''k1'' = None"
  by (simp add: op_defs toy_defs toy_getKT)

subsection \<open>ExportPubKeyBytes\<close>

text \<open>
  C3. Let the keyset stored under \<open>keyID\<close> read back as \<open>kh\<close>. If the primary key of
  \<open>kh\<close> is symmetric, ExportPubKeyBytes returns an error. If it returns bytes, they are
  the public component of an asymmetric private entry that carries the primary key id,
  and they hold nothing of the private key bytes: any keyset that differs from \<open>kh\<close> in
  its secret bytes only (stored under any id, in any key manager) exports the same.
\<close>

theorem ExportPubKeyBytes_public_only:
  assumes "fst (getKeySet lib l keyID) = Inr kh"
  shows "(\<forall>k secret. primaryKey kh = Some k \<and> KeyData k = Symmetric secret \<longrightarrow>
            isl (fst (ExportPubKeyBytes lib l keyID))) \<and>
         (\<forall>buf. fst (ExportPubKeyBytes lib l keyID) = Inr buf \<longrightarrow>
            (\<exists>k d. k \<in> set (Key kh) \<and> KeyId k = PrimaryKeyId kh \<and>
                   KeyData k = AsymmetricPrivate d buf)) \<and>
         (\<forall>lib' l' keyID' kh'.
            fst (getKeySet lib' l' keyID') = Inr kh' \<and> redact kh' = redact kh \<longrightarrow>
            fst (ExportPubKeyBytes lib' l' keyID') = fst (ExportPubKeyBytes lib l keyID))"
proof (intro conjI allI impI)
  fix k secret
  assume a: "primaryKey kh = Some k \<and> KeyData k = Symmetric secret"
  then have "k \<in> set (Key kh)"
    by (auto simp: primaryKey_def find_Some_iff)
  with a have "\<not> (\<exists>pubKeys. publicKeys (Key kh) = Inr pubKeys)"
    using publicKeys_Inr_private by fastforce
  then have "isl (Handle_Public kh)"
    by (cases "publicKeys (Key kh)") (auto simp: Handle_Public_def)
  with assms show "isl (fst (ExportPubKeyBytes lib l keyID))"
    by (cases "Handle_Public kh") (auto simp: ExportPubKeyBytes_fst)
next
  fix buf
  assume b: "fst (ExportPubKeyBytes lib l keyID) = Inr buf"
  with assms obtain pubKH where p: "Handle_Public kh = Inr pubKH"
    and w: "Handle_WriteWithNoSecrets pubKH pubKeyWriter_Write = Inr buf"
    by (cases "Handle_Public kh") (auto simp: ExportPubKeyBytes_fst)
  from p obtain pubKeys where pk: "publicKeys (Key kh) = Inr pubKeys"
    and ph: "pubKH = \<lparr>PrimaryKeyId = PrimaryKeyId kh, Key = pubKeys\<rparr>"
    by (cases "publicKeys (Key kh)") (auto simp: Handle_Public_def)
  from w ph have "writePrimaryPubKey (PrimaryKeyId kh) pubKeys = Inr buf"
    by (auto simp: Handle_WriteWithNoSecrets_def pubKeyWriter_Write_def split: if_splits)
  from writePrimaryPubKey_publicKeys [OF pk this]
  show "\<exists>k d. k \<in> set (Key kh) \<and> KeyId k = PrimaryKeyId kh \<and> KeyData k = AsymmetricPrivate d buf"
    by blast
next
  fix lib' l' keyID' kh'
  assume c: "fst (getKeySet lib' l' keyID') = Inr kh' \<and> redact kh' = redact kh"
  then have "Handle_Public kh' = Handle_Public kh"
    by (metis Handle_Public_redact)
  with c assms show "fst (ExportPubKeyBytes lib' l' keyID') = fst (ExportPubKeyBytes lib l keyID)"
    by (simp add: ExportPubKeyBytes_fst)
qed

theorem ExportPubKeyBytes_public_only_witness:
  "fst (getKeySet toyLibrary toyKMS ''k0'') = Inr symKeyset \<and>
   primaryKey symKeyset = Some (toyEntry (Symmetric ''s1'') 1) \<and>
   isl (fst (ExportPubKeyBytes toyLibrary toyKMS ''k0'')) \<and>
   fst (getKeySet toyLibrary toyKMS ''k1'') = Inr ecKeyset \<and>
   fst (ExportPubKeyBytes toyLibrary toyKMS ''k1'') = Inr ''Q1'' \<and>
   toyEntry (AsymmetricPrivate ''d1'' ''Q1'') 1 \<in> set (Key ecKeyset)"
proof -
  have p: "primaryKey symKeyset = Some (toyEntry (Symmetric ''s1'') 1)"
    by (simp add: primaryKey_def symKeyset_def toyEntry_def)
  have d: "KeyData (toyEntry (Symmetric ''s1'') 1) = Symmetric ''s1''"
    by (simp add: toyEntry_def)
  have e: "fst (ExportPubKeyBytes toyLibrary toyKMS ''k1'') = Inr ''Q1''"
    by (simp add: ExportPubKeyBytes_fst toy_getKeySet_k1 Handle_Public_def
        Handle_WriteWithNoSecrets_def pubKeyWriter_Write_def ecKeyset_def toyEntry_def)
  from ExportPubKeyBytes_public_only [OF toy_getKeySet_k0] p d
  have "isl (fst (ExportPubKeyBytes toyLibrary toyKMS ''k0''))" by blast
  moreover from ExportPubKeyBytes_public_only [OF toy_getKeySet_k1] e
  have "\<exists>k d. k \<in> set (Key ecKeyset) \<and> KeyId k = PrimaryKeyId ecKeyset \<and>
              KeyData k = AsymmetricPrivate d ''Q1''" by blast
  then have "toyEntry (AsymmetricPrivate ''d1'' ''Q1'') 1 \<in> set (Key ecKeyset)"
    by (simp add: ecKeyset_def)
  ultimately show ?thesis using p e toy_getKeySet_k0 toy_getKeySet_k1 by simp
qed

subsection \<open>Template resolution\<close>

text \<open>
  C4. \<open>getKeyTemplate\<close> is a function of the key type alone. For every key type of the
  recognised set it returns a template; for every other string, the empty one included,
  it returns the "key type unrecognized" error. So Create with an empty or unrecognised
  key type returns an error (the empty id and the nil handle with it) and leaves the key
  manager as it was: "missing key type" for the empty one, "key type unrecognized" for
  the others.
\<close>

theorem getKeyTemplate_total_Create_rejects:
  "(kt \<in> set recognizedKeyTypes \<longrightarrow> (\<exists>t. getKeyTemplate kt = Inr t)) \<and>
   (kt \<notin> set recognizedKeyTypes \<longrightarrow> getKeyTemplate kt = Inl ErrKeyTypeUnrecognized) \<and>
   '''' \<notin> set recognizedKeyTypes \<and>
   Create lib l '''' = (Inl ErrMissingKeyType, l) \<and>
   (kt \<notin> set recognizedKeyTypes \<longrightarrow>
      isl (fst (Create lib l kt)) \<and> snd (Create lib l kt) = l) \<and>
   (kt \<notin> set recognizedKeyTypes \<and> kt \<noteq> '''' \<longrightarrow>
      Create lib l kt = (Inl ErrKeyTypeUnrecognized, l))"
  using getKeyTemplate_recognized [of kt] getKeyTemplate_unrecognized [of kt] empty_unrecognized
  by (simp add: Create_def)

theorem getKeyTemplate_total_Create_rejects_witness:
  "AES256GCMType \<in> set recognizedKeyTypes \<and>
   getKeyTemplate AES256GCMType = Inr (LibraryTemplate ''aead.AES256GCMKeyTemplate'') \<and>
   ''RSA2048'' \<notin> set recognizedKeyTypes \<and>
   getKeyTemplate ''RSA2048'' = Inl ErrKeyTypeUnrecognized \<and>
   Create toyLibrary toyKMS ''RSA2048'' = (Inl ErrKeyTypeUnrecognized, toyKMS) \<and>
   Create toyLibrary toyKMS '''' = (Inl ErrMissingKeyType, toyKMS)"
proof -
  have a: "AES256GCMType \<in> set recognizedKeyTypes"
    by (simp add: recognizedKeyTypes_def)
  have b: "''RSA2048'' \<notin> set recognizedKeyTypes"
    by (simp add: recognizedKeyTypes_def KeyType_defs)
  have c: "getKeyTemplate AES256GCMType = Inr (LibraryTemplate ''aead.AES256GCMKeyTemplate'')"
    by (simp add: getKeyTemplate_def KeyType_defs)
  from a b c
    getKeyTemplate_total_Create_rejects [of AES256GCMType toyLibrary toyKMS]
    getKeyTemplate_total_Create_rejects [of "''RSA2048''" toyLibrary toyKMS]
  show ?thesis by simp
qed

text \<open>
  C5. Each of the three IEEE-P1363 ECDSA key types resolves to the ECDSA private key
  template with the IEEE_P1363 signature encoding, the RAW output prefix and the curve
  with its hash: SHA-256 with P-256, SHA-384 with P-384, SHA-512 with P-521. Each of the
  three DER key types resolves to the signature library's template for its curve, whose
  encoding is DER.
\<close>

theorem ECDSA_templates:
  "getKeyTemplate ECDSAP256TypeIEEEP1363 =
     Inr (KeyTemplate ecdsaPrivateKeyTypeURL
            \<lparr>Params = \<lparr>HashType = SHA256, Curve = NIST_P256, Encoding = IEEE_P1363\<rparr>\<rparr> RAW) \<and>
   getKeyTemplate ECDSAP384TypeIEEEP1363 =
     Inr (KeyTemplate ecdsaPrivateKeyTypeURL
            \<lparr>Params = \<lparr>HashType = SHA384, Curve = NIST_P384, Encoding = IEEE_P1363\<rparr>\<rparr> RAW) \<and>
   getKeyTemplate ECDSAP521TypeIEEEP1363 =
     Inr (KeyTemplate ecdsaPrivateKeyTypeURL
            \<lparr>Params = \<lparr>HashType = SHA512, Curve = NIST_P521, Encoding = IEEE_P1363\<rparr>\<rparr> RAW) \<and>
   getKeyTemplate ECDSAP256TypeDER = Inr signature_ECDSAP256KeyWithoutPrefixTemplate \<and>
   getKeyTemplate ECDSAP384TypeDER = Inr signature_ECDSAP384KeyWithoutPrefixTemplate \<and>
   getKeyTemplate ECDSAP521TypeDER = Inr signature_ECDSAP521KeyWithoutPrefixTemplate \<and>
   Encoding (Params (Value signature_ECDSAP256KeyWithoutPrefixTemplate)) = DER \<and>
   Encoding (Params (Value signature_ECDSAP384KeyWithoutPrefixTemplate)) = DER \<and>
   Encoding (Params (Value signature_ECDSAP521KeyWithoutPrefixTemplate)) = DER \<and>
   Curve (Params (Value signature_ECDSAP256KeyWithoutPrefixTemplate)) = NIST_P256 \<and>
   Curve (Params (Value signature_ECDSAP384KeyWithoutPrefixTemplate)) = NIST_P384 \<and>
   Curve (Params (Value signature_ECDSAP521KeyWithoutPrefixTemplate)) = NIST_P521"
  by (simp add: getKeyTemplate_def createECDSAIEEE1363KeyTemplate_def KeyType_defs
      signature_ECDSAP256KeyWithoutPrefixTemplate_def
      signature_ECDSAP384KeyWithoutPrefixTemplate_def
      signature_ECDSAP521KeyWithoutPrefixTemplate_def)

subsection \<open>ImportPrivateKey\<close>

text \<open>
  C6. The specification has every import under an occupied caller-supplied id fail with
  "ID already exists". The type switch of ImportPrivateKey comes first: a value that is not
  a supported private key is refused as unsupported whatever id was asked for, and a key
  that does not validate or does not seal fails with that step's error. What holds: when
  the id asked for with \<open>WithKeyID\<close> is occupied, ImportPrivateKey fails and the records
  of the store are as they were, the one under that id included; and whenever the key is
  a supported private key that validates and seals, so that the import reaches the store
  write, the error is "ID already exists". (Create takes no options in this file.)
\<close>

theorem ImportPrivateKey_occupied_id:
  assumes "requestedID opts = Some ksID" and "recs (store l) ksID = Some v"
  shows "isl (fst (ImportPrivateKey lib l privKey kt opts)) \<and>
         recs (store (snd (ImportPrivateKey lib l privKey kt opts))) = recs (store l) \<and>
         (\<forall>pk ks buf.
            privKey = EcdsaPrivateKeyPtr (Some pk) \<and> ecdsaPrivateKeyToKeyset lib pk kt = Inr ks \<and>
            Handle_Write lib ks (masterKeyEnvAEAD l) = Inr buf \<longrightarrow>
            fst (ImportPrivateKey lib l privKey kt opts) = Inl ErrIDAlreadyExists) \<and>
         (\<forall>pk ks buf.
            privKey = Ed25519PrivateKey pk \<and> ed25519PrivateKeyToKeyset lib pk kt = Inr ks \<and>
            Handle_Write lib ks (masterKeyEnvAEAD l) = Inr buf \<longrightarrow>
            fst (ImportPrivateKey lib l privKey kt opts) = Inl ErrIDAlreadyExists)"
proof (cases privKey)
  case (EcdsaPrivateKeyPtr pko)
  show ?thesis
  proof (cases pko)
    case None
    with EcdsaPrivateKeyPtr show ?thesis
      by (simp add: ImportPrivateKey_def importECDSAKey_def)
  next
    case (Some pk)
    show ?thesis
    proof (cases "ecdsaPrivateKeyToKeyset lib pk kt")
      case (Inl e)
      with EcdsaPrivateKeyPtr Some show ?thesis
        by (simp add: ImportPrivateKey_def importECDSAKey_def)
    next
      case (Inr ks)
      with EcdsaPrivateKeyPtr Some importKeySet_occupied [OF assms, of lib ks] show ?thesis
        by (simp add: ImportPrivateKey_def importECDSAKey_def)
    qed
  qed
next
  case (Ed25519PrivateKey pk)
  show ?thesis
  proof (cases "ed25519PrivateKeyToKeyset lib pk kt")
    case (Inl e)
    with Ed25519PrivateKey show ?thesis
      by (simp add: ImportPrivateKey_def importEd25519Key_def)
  next
    case (Inr ks)
    with Ed25519PrivateKey importKeySet_occupied [OF assms, of lib ks] show ?thesis
      by (simp add: ImportPrivateKey_def importEd25519Key_def)
  qed
qed (simp_all add: ImportPrivateKey_def)

theorem ImportPrivateKey_occupied_id_witness:
  "requestedID [WithKeyID ''k1''] = Some ''k1'' \<and>
   recs (store toyKMS) ''k1'' = Some ''sealed:P:d1,Q1;'' \<and>
   ed25519PrivateKeyToKeyset toyLibrary ''d3Q3'' ED25519Type =
     Inr \<lparr>PrimaryKeyId = 1, Key = [toyEntry (AsymmetricPrivate ''d3'' ''Q3'') 1]\<rparr> \<and>
   fst (ImportPrivateKey toyLibrary toyKMS (Ed25519PrivateKey ''d3Q3'') ED25519Type
          [WithKeyID ''k1'']) = Inl ErrIDAlreadyExists \<and>
   recs (store (snd (ImportPrivateKey toyLibrary toyKMS (Ed25519PrivateKey ''d3Q3'') ED25519Type
          [WithKeyID ''k1'']))) = recs (store toyKMS)"
proof -
  have a: "requestedID [WithKeyID ''k1''] = Some ''k1''" by simp
  have b: "recs (store toyKMS) ''k1'' = Some ''sealed:P:d1,Q1;''"
    by (simp add: toy_defs)
  have c: "ed25519PrivateKeyToKeyset toyLibrary ''d3Q3'' ED25519Type =
     Inr \<lparr>PrimaryKeyId = 1, Key = [toyEntry (AsymmetricPrivate ''d3'' ''Q3'') 1]\<rparr>"
    by (simp add: toyLibrary_def)
  have d: "Handle_Write toyLibrary
             \<lparr>PrimaryKeyId = 1, Key = [toyEntry (AsymmetricPrivate ''d3'' ''Q3'') 1]\<rparr>
             (masterKeyEnvAEAD toyKMS) = Inr ''sealed:P:d3,Q3;''"
    by (simp add: Handle_Write_def toy_defs)
  from ImportPrivateKey_occupied_id
         [OF a b, of toyLibrary "Ed25519PrivateKey ''d3Q3''" ED25519Type] a b c d
  show ?thesis by blast
qed

text \<open>
  The error class differs for a raw byte slice imported under the occupied id \<open>k1\<close>: the error is
  the unsupported-key error of the type switch, not "ID already exists".
\<close>

theorem ImportPrivateKey_conflict_class_counterexample:
  "requestedID [WithKeyID ''k1''] = Some ''k1'' \<and>
   recs (store toyKMS) ''k1'' = Some ''sealed:P:d1,Q1;'' \<and>
   fst (ImportPrivateKey toyLibrary toyKMS (ByteSlice ''0123456789abcdef'') AES256GCMType
          [WithKeyID ''k1'']) = Inl ErrImportUnsupported \<and>
   fst (ImportPrivateKey toyLibrary toyKMS (ByteSlice ''0123456789abcdef'') AES256GCMType
          [WithKeyID ''k1'']) \<noteq> Inl ErrIDAlreadyExists"
  by (simp add: ImportPrivateKey_def toy_defs)

text \<open>
  C7. For every value that is neither a \<^verbatim>\<open>*ecdsa.PrivateKey\<close> nor an
  \<^verbatim>\<open>ed25519.PrivateKey\<close>, ImportPrivateKey returns the "does not support this key type or
  key is public" error (the empty id and the nil handle with it), whatever the claimed
  key type and the options, and leaves the key manager as it was.
\<close>

theorem ImportPrivateKey_unsupported:
  assumes "\<forall>pk. privKey \<noteq> EcdsaPrivateKeyPtr pk" and "\<forall>pk. privKey \<noteq> Ed25519PrivateKey pk"
  shows "ImportPrivateKey lib l privKey kt opts = (Inl ErrImportUnsupported, l)"
  using assms by (cases privKey) (simp_all add: ImportPrivateKey_def)

theorem ImportPrivateKey_unsupported_witness:
  "ImportPrivateKey toyLibrary toyKMS (ByteSlice ''0123456789abcdef'') AES256GCMType [] =
     (Inl ErrImportUnsupported, toyKMS) \<and>
   ImportPrivateKey toyLibrary toyKMS (Ed25519PublicKey ''Q1'') ED25519Type [WithKeyID ''k9''] =
     (Inl ErrImportUnsupported, toyKMS)"
  using
    ImportPrivateKey_unsupported
      [of "ByteSlice ''0123456789abcdef''" toyLibrary toyKMS AES256GCMType "[]"]
    ImportPrivateKey_unsupported
      [of "Ed25519PublicKey ''Q1''" toyLibrary toyKMS ED25519Type "[WithKeyID ''k9'']"]
  by simp

subsection \<open>Get\<close>

text \<open>
  C8. Every call of Get reads the record under the id from the store (its one store
  call), and its result is computed from that record and the master key alone: there is
  nothing cached to serve. So Get of an id with no record returns "not found", and once
  the record of an id has been deleted Get returns "not found" for it, also after an
  earlier successful Get or Create of that id.
\<close>

theorem Get_reads_store_every_call:
  "log (store (snd (Get lib l keyID))) = log (store l) @ [OpGet keyID] \<and>
   fst (Get lib l keyID) =
     (case recs (store l) keyID of
        None \<Rightarrow> Inl ErrDataNotFound
      | Some data \<Rightarrow> keyset_Read lib data (masterKeyEnvAEAD l)) \<and>
   (recs (store l) keyID = None \<longrightarrow> fst (Get lib l keyID) = Inl ErrDataNotFound) \<and>
   (Store_Delete (store l) keyID = (None, s') \<longrightarrow>
      fst (Get lib (l\<lparr>store := s'\<rparr>) keyID) = Inl ErrDataNotFound) \<and>
   (fst (Get lib l keyID) = Inr kh \<and>
    Store_Delete (store (snd (Get lib l keyID))) keyID = (None, s') \<longrightarrow>
      fst (Get lib ((snd (Get lib l keyID))\<lparr>store := s'\<rparr>) keyID) = Inl ErrDataNotFound) \<and>
   (Create lib l kt = (Inr (keyID, kh), l1) \<and> Store_Delete (store l1) keyID = (None, s') \<longrightarrow>
      fst (Get lib (l1\<lparr>store := s'\<rparr>) keyID) = Inl ErrDataNotFound)"
proof -
  have deleted: "fst (Get lib (l0\<lparr>store := s'\<rparr>) keyID) = Inl ErrDataNotFound"
    if "Store_Delete (store l0) keyID = (None, s')" for l0
  proof -
    from that have "recs s' keyID = None"
      by (auto simp: Store_Delete_def split: option.splits)
    then show ?thesis by (simp add: Get_def getKeySet_fst)
  qed
  have "log (store (snd (Get lib l keyID))) = log (store l) @ [OpGet keyID]"
    by (simp add: Get_def getKeySet_snd)
  moreover have "fst (Get lib l keyID) =
     (case recs (store l) keyID of
        None \<Rightarrow> Inl ErrDataNotFound
      | Some data \<Rightarrow> keyset_Read lib data (masterKeyEnvAEAD l))"
    by (simp add: Get_def getKeySet_fst)
  ultimately show ?thesis using deleted by simp
qed

theorem Get_reads_store_every_call_witness:
  "fst (Get toyLibrary toyKMS ''k1'') = Inr ecKeyset \<and>
   fst (Store_Delete (store (snd (Get toyLibrary toyKMS ''k1''))) ''k1'') = None \<and>
   fst (Get toyLibrary
         ((snd (Get toyLibrary toyKMS ''k1''))
            \<lparr>store := snd (Store_Delete (store (snd (Get toyLibrary toyKMS ''k1''))) ''k1'')\<rparr>)
         ''k1'') = Inl ErrDataNotFound \<and>
   recs (store toyKMS) ''k7'' = None \<and>
   fst (Get toyLibrary toyKMS ''k7'') = Inl ErrDataNotFound"
proof -
  let ?l1 = "snd (Get toyLibrary toyKMS ''k1'')"
  have a: "fst (Get toyLibrary toyKMS ''k1'') = Inr ecKeyset"
    by (simp add: Get_def toy_getKeySet_k1)
  have b: "fst (Store_Delete (store ?l1) ''k1'') = None"
    by (simp add: Get_def getKeySet_snd Store_Delete_def toy_defs)
  then have c: "Store_Delete (store ?l1) ''k1'' = (None, snd (Store_Delete (store ?l1) ''k1''))"
    by (metis prod.collapse)
  have d: "recs (store toyKMS) ''k7'' = None"
    by (simp add: toy_defs)
  from Get_reads_store_every_call
         [of toyLibrary toyKMS "''k1''" "snd (Store_Delete (store ?l1) ''k1'')" ecKeyset] a c
  have "fst (Get toyLibrary (?l1\<lparr>store := snd (Store_Delete (store ?l1) ''k1'')\<rparr>) ''k1'') =
          Inl ErrDataNotFound" by blast
  moreover from Get_reads_store_every_call [of toyLibrary toyKMS "''k7''"] d
  have "fst (Get toyLibrary toyKMS ''k7'') = Inl ErrDataNotFound" by blast
  ultimately show ?thesis using a b d by simp
qed

subsection \<open>PubKeyBytesToHandle\<close>

text \<open>
  C9. PubKeyBytesToHandle leaves the key manager exactly as it was, the records of the
  store and the log of store calls included, and the handle (or error) it returns is the
  same in every state of the key manager: it is computed from the public key bytes and
  the key type alone.
\<close>

theorem PubKeyBytesToHandle_no_storage:
  "snd (PubKeyBytesToHandle lib l pubKey kt) = l \<and>
   recs (store (snd (PubKeyBytesToHandle lib l pubKey kt))) = recs (store l) \<and>
   log (store (snd (PubKeyBytesToHandle lib l pubKey kt))) = log (store l) \<and>
   fst (PubKeyBytesToHandle lib l pubKey kt) = fst (PubKeyBytesToHandle lib l' pubKey kt)"
  by (simp add: PubKeyBytesToHandle_def)

subsection \<open>Rotate: failures before the delete\<close>

text \<open>
  C10. If Rotate fails before its store-delete step, that is, if the keyset under
  \<open>keyID\<close> cannot be fetched or decrypted, or the key type is unrecognised, or rotating
  the keyset in memory fails (the manager's rotation or its handle), then Rotate returns
  an error and the records of the store are as they were: the one under \<open>keyID\<close> is
  still there and none was added. Its only store call was the read of \<open>keyID\<close>.
\<close>

theorem Rotate_early_failure_frame:
  assumes "fst (getKeySet lib l keyID) = Inl err \<or>
           getKeyTemplate kt = Inl err \<or>
           (\<exists>kh keyTemplate.
              fst (getKeySet lib l keyID) = Inr kh \<and> getKeyTemplate kt = Inr keyTemplate \<and>
              (fst (Manager_Rotate lib kh keyTemplate (random l)) = Inl err \<or>
               (\<exists>km. fst (Manager_Rotate lib kh keyTemplate (random l)) = Inr km \<and>
                     Manager_Handle lib km = Inl err)))"
  shows "isl (fst (Rotate lib l kt keyID)) \<and>
         recs (store (snd (Rotate lib l kt keyID))) = recs (store l) \<and>
         log (store (snd (Rotate lib l kt keyID))) = log (store l) @ [OpGet keyID]"
proof -
  let ?l1 = "l\<lparr>store := (store l)\<lparr>log := log (store l) @ [OpGet keyID]\<rparr>\<rparr>"
  have g: "getKeySet lib l keyID = (fst (getKeySet lib l keyID), ?l1)"
    by (rule getKeySet_pair)
  show ?thesis
    using assms
    by (subst (1 2 3) Rotate_def, subst (1 2 3) g)
       (auto split: sum.splits prod.splits)
qed

theorem Rotate_early_failure_frame_witness:
  "fst (getKeySet toyLibrary toyKMS ''k7'') = Inl ErrDataNotFound \<and>
   isl (fst (Rotate toyLibrary toyKMS ECDSAP256TypeIEEEP1363 ''k7'')) \<and>
   recs (store (snd (Rotate toyLibrary toyKMS ECDSAP256TypeIEEEP1363 ''k7''))) =
     recs (store toyKMS) \<and>
   getKeyTemplate ''RSA2048'' = Inl ErrKeyTypeUnrecognized \<and>
   isl (fst (Rotate toyLibrary toyKMS ''RSA2048'' ''k1'')) \<and>
   recs (store (snd (Rotate toyLibrary toyKMS ''RSA2048'' ''k1''))) = recs (store toyKMS) \<and>
   fst (getKeySet toyLibrary dryKMS ''k1'') = Inr ecKeyset \<and>
   fst (Manager_Rotate toyLibrary ecKeyset (createECDSAIEEE1363KeyTemplate SHA256 NIST_P256)
         (random dryKMS)) = Inl ErrRandom \<and>
   isl (fst (Rotate toyLibrary dryKMS ECDSAP256TypeIEEEP1363 ''k1'')) \<and>
   recs (store (snd (Rotate toyLibrary dryKMS ECDSAP256TypeIEEEP1363 ''k1''))) =
     recs (store dryKMS)"
proof -
  have a: "fst (getKeySet toyLibrary toyKMS ''k7'') = Inl ErrDataNotFound"
    by (simp add: getKeySet_fst toy_defs)
  have c: "fst (getKeySet toyLibrary dryKMS ''k1'') = Inr ecKeyset"
    by (simp add: getKeySet_fst keyset_Read_def dryKMS_def toy_defs)
  have d: "fst (Manager_Rotate toyLibrary ecKeyset
                 (createECDSAIEEE1363KeyTemplate SHA256 NIST_P256) (random dryKMS)) =
             Inl ErrRandom"
    by (simp add: dryKMS_def toyKMS_def toyLibrary_def)
  from a toy_unrecognized c d toy_getKT
    Rotate_early_failure_frame
      [of toyLibrary toyKMS "''k7''" ErrDataNotFound ECDSAP256TypeIEEEP1363]
    Rotate_early_failure_frame
      [of toyLibrary toyKMS "''k1''" ErrKeyTypeUnrecognized "''RSA2048''"]
    Rotate_early_failure_frame
      [of toyLibrary dryKMS "''k1''" ErrRandom ECDSAP256TypeIEEEP1363]
  show ?thesis by blast
qed

end
